theory Spec2Isabelle
  imports Complex_Main "HOL-Library.Stream"
begin

section \<open>Numbers and errors of the Python program\<close>

text \<open>
  The script \<^verbatim>\<open>text_length_ab_test.py\<close> computes with numpy's 64-bit floats. A finite
  float is read here as the exact real it stands for (rounding, overflow to infinity and
  the sign of zero are not modelled); the three special values, which numpy produces
  instead of raising (warnings are switched off in line 33 of the script), are kept, since
  some of the properties below turn on them.
\<close>

datatype npfloat = Num real | PInf | NInf | NaN

text \<open>The exceptions the modelled functions can raise.\<close>

datatype py_error =
    ExpectedZero nat nat
      \<comment> \<open>\<^verbatim>\<open>ValueError\<close> of \<^verbatim>\<open>chi2_contingency\<close>: the table of expected frequencies
          has a zero element at the given position\<close>
  | IntOfNaN
      \<comment> \<open>\<^verbatim>\<open>ValueError\<close>: cannot convert float NaN to integer\<close>
  | IntOfInfinity
      \<comment> \<open>\<^verbatim>\<open>OverflowError\<close>: cannot convert float infinity to integer\<close>
  | NegativeObserved
      \<comment> \<open>\<^verbatim>\<open>ValueError\<close> of \<^verbatim>\<open>chi2_contingency\<close>: all values in the observed table
          must be nonnegative\<close>
  | KeyError string

definition inf_of_sign :: "real \<Rightarrow> npfloat" where
  "inf_of_sign s = (if 0 < s then PInf else if s < 0 then NInf else NaN)"

fun fneg :: "npfloat \<Rightarrow> npfloat" where
  "fneg (Num x) = Num (- x)"
| "fneg PInf = NInf"
| "fneg NInf = PInf"
| "fneg NaN = NaN"

fun fadd :: "npfloat \<Rightarrow> npfloat \<Rightarrow> npfloat" where
  "fadd NaN _ = NaN"
| "fadd _ NaN = NaN"
| "fadd (Num x) (Num y) = Num (x + y)"
| "fadd PInf NInf = NaN"
| "fadd NInf PInf = NaN"
| "fadd PInf _ = PInf"
| "fadd _ PInf = PInf"
| "fadd NInf _ = NInf"
| "fadd _ NInf = NInf"

definition fsub :: "npfloat \<Rightarrow> npfloat \<Rightarrow> npfloat" where
  "fsub a b = fadd a (fneg b)"

fun fmul :: "npfloat \<Rightarrow> npfloat \<Rightarrow> npfloat" where
  "fmul NaN _ = NaN"
| "fmul _ NaN = NaN"
| "fmul (Num x) (Num y) = Num (x * y)"
| "fmul PInf (Num y) = inf_of_sign y"
| "fmul NInf (Num y) = inf_of_sign (- y)"
| "fmul (Num x) PInf = inf_of_sign x"
| "fmul (Num x) NInf = inf_of_sign (- x)"
| "fmul PInf PInf = PInf"
| "fmul PInf NInf = NInf"
| "fmul NInf PInf = NInf"
| "fmul NInf NInf = PInf"

text \<open>
  numpy's true division: a finite number over zero is an infinity of the sign of the
  numerator, zero over zero is NaN (the zero divisor is read as \<open>+0\<close>).
\<close>

fun fdiv :: "npfloat \<Rightarrow> npfloat \<Rightarrow> npfloat" where
  "fdiv NaN _ = NaN"
| "fdiv _ NaN = NaN"
| "fdiv (Num x) (Num y) = (if y = 0 then inf_of_sign x else Num (x / y))"
| "fdiv (Num x) _ = Num 0"
| "fdiv PInf (Num y) = (if 0 \<le> y then PInf else NInf)"
| "fdiv NInf (Num y) = (if 0 \<le> y then NInf else PInf)"
| "fdiv _ _ = NaN"

fun fsqrt :: "npfloat \<Rightarrow> npfloat" where
  "fsqrt (Num x) = (if x < 0 then NaN else Num (sqrt x))"
| "fsqrt PInf = PInf"
| "fsqrt NInf = NaN"
| "fsqrt NaN = NaN"

fun fabs :: "npfloat \<Rightarrow> npfloat" where
  "fabs (Num x) = Num \<bar>x\<bar>"
| "fabs PInf = PInf"
| "fabs NInf = PInf"
| "fabs NaN = NaN"

fun fsign :: "npfloat \<Rightarrow> npfloat" where
  "fsign (Num x) = Num (sgn x)"
| "fsign PInf = Num 1"
| "fsign NInf = Num (- 1)"
| "fsign NaN = NaN"

fun flt :: "npfloat \<Rightarrow> npfloat \<Rightarrow> bool" where
  "flt NaN _ = False"
| "flt _ NaN = False"
| "flt (Num x) (Num y) = (x < y)"
| "flt NInf NInf = False"
| "flt NInf _ = True"
| "flt _ NInf = False"
| "flt PInf _ = False"
| "flt _ PInf = True"

text \<open>\<^verbatim>\<open>np.minimum\<close>: the smaller argument, NaN as soon as one argument is NaN.\<close>

fun fminimum :: "npfloat \<Rightarrow> npfloat \<Rightarrow> npfloat" where
  "fminimum NaN _ = NaN"
| "fminimum _ NaN = NaN"
| "fminimum a b = (if flt b a then b else a)"

fun fceil :: "npfloat \<Rightarrow> npfloat" where
  "fceil (Num x) = Num (of_int \<lceil>x\<rceil>)"
| "fceil a = a"

text \<open>Python's \<^verbatim>\<open>int(x)\<close> on a float: truncation, and an exception on a special value.\<close>

fun py_int :: "npfloat \<Rightarrow> py_error + int" where
  "py_int (Num x) = Inr (if 0 \<le> x then \<lfloor>x\<rfloor> else \<lceil>x\<rceil>)"
| "py_int NaN = Inl IntOfNaN"
| "py_int _ = Inl IntOfInfinity"

text \<open>
  The arithmetic operators of the script on floats are these operations, so the models
  below are written with \<open>+\<close>, \<open>-\<close>, \<open>*\<close> and \<open>/\<close> as the source is.
\<close>

instantiation npfloat :: "{plus, minus, uminus, times, inverse}"
begin

definition plus_npfloat :: "npfloat \<Rightarrow> npfloat \<Rightarrow> npfloat" where
  "plus_npfloat = fadd"

definition minus_npfloat :: "npfloat \<Rightarrow> npfloat \<Rightarrow> npfloat" where
  "minus_npfloat = fsub"

definition uminus_npfloat :: "npfloat \<Rightarrow> npfloat" where
  "uminus_npfloat = fneg"

definition times_npfloat :: "npfloat \<Rightarrow> npfloat \<Rightarrow> npfloat" where
  "times_npfloat = fmul"

definition divide_npfloat :: "npfloat \<Rightarrow> npfloat \<Rightarrow> npfloat" where
  "divide_npfloat = fdiv"

definition inverse_npfloat :: "npfloat \<Rightarrow> npfloat" where
  "inverse_npfloat a = fdiv (Num 1) a"

instance ..

end

text \<open>\<^verbatim>\<open>x ** 2\<close>\<close>

definition fsquare :: "npfloat \<Rightarrow> npfloat" where
  "fsquare a = a * a"

section \<open>Business impact (lines 353 to 371)\<close>

record impact =
  additional_approved :: real
  additional_funding :: real
  projects_rejected :: real
  net_impact :: real

text \<open>
  \<^verbatim>\<open>calculate_business_impact(control_rate, treatment_rate, total_projects, avg_project_cost)\<close>,
  on finite arguments. The default of the last argument is \<open>avg_project_cost_default\<close>.
\<close>

definition avg_project_cost_default :: real where
  "avg_project_cost_default = 298.12"

definition calculate_business_impact :: "real \<Rightarrow> real \<Rightarrow> real \<Rightarrow> real \<Rightarrow> impact" where
  "calculate_business_impact control_rate treatment_rate total_projects avg_project_cost =
    (let additional_approved = (treatment_rate - control_rate) * total_projects;
         additional_funding = additional_approved * avg_project_cost;
         projects_rejected =
           (if treatment_rate < control_rate
            then (control_rate - treatment_rate) * total_projects else 0)
     in \<lparr> additional_approved = additional_approved,
          additional_funding = additional_funding,
          projects_rejected = projects_rejected,
          net_impact = additional_funding - projects_rejected * avg_project_cost \<rparr>)"

section \<open>Cohort assignment and outcome simulation (lines 173 to 214)\<close>

record group_config =
  name :: string
  min_essay_length :: nat

text \<open>The dictionary \<^verbatim>\<open>test_groups\<close> of \<^verbatim>\<open>implement_ab_test\<close>.\<close>

definition test_groups :: "string \<rightharpoonup> group_config" where
  "test_groups =
    [''A'' \<mapsto> \<lparr> name = ''Control'', min_essay_length = 0 \<rparr>,
     ''B'' \<mapsto> \<lparr> name = ''Treatment 1'', min_essay_length = 800 \<rparr>,
     ''C'' \<mapsto> \<lparr> name = ''Treatment 2'', min_essay_length = 1000 \<rparr>,
     ''D'' \<mapsto> \<lparr> name = ''Treatment 3'', min_essay_length = 1200 \<rparr>]"

text \<open>
  The columns of a data-frame row that the simulation reads. \<open>essay_length\<close> is
  \<^verbatim>\<open>str.len()\<close> of the essay, which pandas leaves missing (NaN) when the essay is
  missing: \<open>None\<close> here.
\<close>

record row =
  project_is_approved :: int
  essay_length :: "nat option"
  test_group :: string

text \<open>
  numpy's global random generator is a state that each draw advances. It is modelled as
  the stream of the uniform numbers of \<open>[0, 1)\<close> it will deliver;
  \<^verbatim>\<open>np.random.choice(values, p=probs)\<close> takes one of them and returns the value whose
  cumulative probability interval holds it.
\<close>

type_synonym rng = "real stream"

fun choose_by_cdf :: "('a \<times> real) list \<Rightarrow> real \<Rightarrow> real \<Rightarrow> 'a \<Rightarrow> 'a" where
  "choose_by_cdf [] acc u d = d"
| "choose_by_cdf ((v, p) # rest) acc u d =
     (if rest = [] \<or> u < acc + p then v else choose_by_cdf rest (acc + p) u d)"

definition random_choice :: "('a \<times> real) list \<Rightarrow> 'a \<Rightarrow> rng \<Rightarrow> 'a \<times> rng" where
  "random_choice vps d g = (choose_by_cdf vps 0 (shd g) d, stl g)"

text \<open>
  \<^verbatim>\<open>simulate_text_length_effect(row)\<close>. The lookup \<^verbatim>\<open>test_groups[group]\<close> raises
  \<^verbatim>\<open>KeyError\<close> on an unknown group.
\<close>

definition simulate_text_length_effect :: "row \<Rightarrow> rng \<Rightarrow> (py_error + int) \<times> rng" where
  "simulate_text_length_effect r g =
    (case test_groups (test_group r) of
       None \<Rightarrow> (Inl (KeyError (test_group r)), g)
     | Some config \<Rightarrow>
         let min_length = min_essay_length config in
         if min_length = 0 then (Inr (project_is_approved r), g)
         else if (case essay_length r of None \<Rightarrow> False | Some l \<Rightarrow> l < min_length)
                 \<and> project_is_approved r = 1
         then (let (v, g') = random_choice [(0, 0.3), (1, 0.7)] 1 g in (Inr v, g'))
         else (Inr (project_is_approved r), g))"

text \<open>
  The two steps of \<^verbatim>\<open>implement_ab_test\<close> on the rows of the data frame: the random
  assignment of a group to every row (one draw per row, equal probabilities), then
  \<^verbatim>\<open>df.apply(simulate_text_length_effect, axis=1)\<close>, row by row, which stops at the
  first exception. The result pairs every row with its \<^verbatim>\<open>ab_test_approved\<close>.
\<close>

fun assign_groups :: "row list \<Rightarrow> rng \<Rightarrow> row list \<times> rng" where
  "assign_groups [] g = ([], g)"
| "assign_groups (r # rs) g =
     (let (grp, g1) =
            random_choice [(''A'', 0.25), (''B'', 0.25), (''C'', 0.25), (''D'', 0.25)] ''D'' g;
          (rs', g2) = assign_groups rs g1
      in (r\<lparr>test_group := grp\<rparr> # rs', g2))"

fun apply_simulation :: "row list \<Rightarrow> rng \<Rightarrow> py_error + (row \<times> int) list" where
  "apply_simulation [] g = Inr []"
| "apply_simulation (r # rs) g =
     (case simulate_text_length_effect r g of
        (Inl e, _) \<Rightarrow> Inl e
      | (Inr v, g') \<Rightarrow>
          (case apply_simulation rs g' of
             Inl e \<Rightarrow> Inl e
           | Inr out \<Rightarrow> Inr ((r, v) # out)))"

definition implement_ab_test :: "row list \<Rightarrow> rng \<Rightarrow> py_error + (row \<times> int) list" where
  "implement_ab_test df g = (let (df', g') = assign_groups df g in apply_simulation df' g')"

section \<open>The two distribution functions taken from scipy\<close>

text \<open>
  The script calls \<^verbatim>\<open>scipy.stats\<close> for the chi-square test and for normal quantiles.
  These library functions are modelled by the mathematical functions they compute. Both
  rest on the error function, given here by its Maclaurin series
  \<open>erf x = 2 / sqrt pi * (x - x^3 / 3 + x^5 / 10 - x^7 / 42 + ...)\<close>.
\<close>

definition erf_series :: "real \<Rightarrow> real" where
  "erf_series x = (\<Sum>n. (- 1) ^ n * x ^ (2 * n + 1) / (fact n * real (2 * n + 1)))"

definition erf :: "real \<Rightarrow> real" where
  "erf x = 2 / sqrt pi * erf_series x"

text \<open>
  \<^verbatim>\<open>chi2.sf(x, 1)\<close>, the survival function of the chi-square distribution with one
  degree of freedom: \<open>1 - erf (sqrt (x / 2))\<close> for a positive \<open>x\<close>, \<open>1\<close> below.
\<close>

fun chi2_sf :: "npfloat \<Rightarrow> npfloat" where
  "chi2_sf (Num x) = (if x \<le> 0 then Num 1 else Num (1 - erf (sqrt (x / 2))))"
| "chi2_sf PInf = Num 0"
| "chi2_sf NInf = Num 1"
| "chi2_sf NaN = NaN"

text \<open>
  \<^verbatim>\<open>norm.ppf(q)\<close>, the quantile function of the standard normal distribution: the
  inverse of its distribution function \<open>norm_cdf\<close> inside \<open>(0, 1)\<close>, infinite at the two
  ends and NaN outside.
\<close>

definition norm_cdf :: "real \<Rightarrow> real" where
  "norm_cdf x = (1 + erf (x / sqrt 2)) / 2"

fun norm_ppf :: "npfloat \<Rightarrow> npfloat" where
  "norm_ppf (Num q) =
     (if q < 0 \<or> 1 < q then NaN
      else if q = 0 then NInf
      else if q = 1 then PInf
      else Num (THE x. norm_cdf x = q))"
| "norm_ppf _ = NaN"

section \<open>Sample-size estimator (lines 143 to 152)\<close>

text \<open>
  \<^verbatim>\<open>calculate_sample_size(alpha, power, p1, p2)\<close>, on finite arguments (the
  argument \<^verbatim>\<open>power\<close> is \<open>pwr\<close> here). The source has no check of its arguments: the only
  exceptions are those of the final \<^verbatim>\<open>int(...)\<close>. The defaults of the four arguments
  follow. The arguments of the square roots are exact reals here and rounded floats in
  the source, so their signs can differ for arguments next to 0 or 1; the properties
  below do not turn on them.
\<close>

definition calculate_sample_size :: "real \<Rightarrow> real \<Rightarrow> real \<Rightarrow> real \<Rightarrow> py_error + int" where
  "calculate_sample_size alpha pwr p1 p2 =
    (let z_alpha = norm_ppf (Num 1 - Num alpha / Num 2);
         z_beta = norm_ppf (Num pwr);
         p_avg = (Num p1 + Num p2) / Num 2 :: npfloat;
         n = Num 2 * fsquare
               ((z_alpha * fsqrt (Num 2 * p_avg * (Num 1 - p_avg))
                 + z_beta * fsqrt (Num p1 * (Num 1 - Num p1) + Num p2 * (Num 1 - Num p2)))
                / (Num p2 - Num p1))
     in py_int (fceil n))"

definition alpha_default :: real where
  "alpha_default = 0.05"

definition power_default :: real where
  "power_default = 0.8"

definition p1_default :: real where
  "p1_default = 0.8486"

definition p2_default :: real where
  "p2_default = 0.87"

section \<open>Statistical tester (lines 284 to 318)\<close>

subsection \<open>The chi-square test of a two by two table\<close>

text \<open>
  \<^verbatim>\<open>scipy.stats.chi2_contingency(observed)\<close> on the two by two table of counts that
  \<^verbatim>\<open>perform_ab_test\<close> builds, with the defaults \<^verbatim>\<open>correction=True\<close> and
  \<^verbatim>\<open>lambda_=None\<close>. The steps are those of the library:
  \<^item> a negative count raises \<^verbatim>\<open>ValueError\<close>;
  \<^item> the expected frequencies are the products of the row and column sums over the
    total, computed in floats (an all-zero table gives \<open>0 / 0\<close>, NaN, four times);
  \<^item> an expected frequency equal to zero raises \<^verbatim>\<open>ValueError\<close>, naming the first such
    position in row-major order (NaN is not equal to zero);
  \<^item> with one degree of freedom, Yates' continuity correction moves every observed count
    towards its expected frequency by at most one half;
  \<^item> the statistic is Pearson's sum of \<open>(observed - expected)\<^sup>2 / expected\<close>, and the
    p-value its tail probability under one degree of freedom.
  The four terms are added here as exact reals, in row-major order as the library does;
  the library adds floats, so its sum depends on that order in the last bits, and nothing
  below relies on the order.
\<close>

type_synonym 'a table = "('a \<times> 'a) \<times> ('a \<times> 'a)"

definition expected_freq :: "int table \<Rightarrow> npfloat table" where
  "expected_freq observed =
    (case observed of ((a, b), (c, d)) \<Rightarrow>
       let total = Num (real_of_int (a + b + c + d));
           e = (\<lambda>r k. Num (real_of_int r * real_of_int k) / total)
       in ((e (a + b) (a + c), e (a + b) (b + d)),
           (e (c + d) (a + c), e (c + d) (b + d))))"

definition first_zero :: "npfloat table \<Rightarrow> (nat \<times> nat) option" where
  "first_zero expected =
    (case expected of ((e00, e01), (e10, e11)) \<Rightarrow>
       if e00 = Num 0 then Some (0, 0)
       else if e01 = Num 0 then Some (0, 1)
       else if e10 = Num 0 then Some (1, 0)
       else if e11 = Num 0 then Some (1, 1)
       else None)"

definition yates :: "npfloat \<Rightarrow> npfloat \<Rightarrow> npfloat" where
  "yates obs ex =
    (let diff = ex - obs;
         direction = fsign diff;
         magnitude = fminimum (Num 0.5) (fabs diff)
     in obs + magnitude * direction)"

definition pearson_term :: "npfloat \<Rightarrow> npfloat \<Rightarrow> npfloat" where
  "pearson_term obs ex = fsquare (obs - ex) / ex"

definition chi2_contingency ::
  "int table \<Rightarrow> py_error + (npfloat \<times> npfloat \<times> nat \<times> npfloat table)" where
  "chi2_contingency observed =
    (case observed of ((a, b), (c, d)) \<Rightarrow>
       if a < 0 \<or> b < 0 \<or> c < 0 \<or> d < 0 then Inl NegativeObserved
       else
         let expected = expected_freq observed in
         (case first_zero expected of
            Some (i, j) \<Rightarrow> Inl (ExpectedZero i j)
          | None \<Rightarrow>
              (case expected of ((e00, e01), (e10, e11)) \<Rightarrow>
                 let dof = 1;
                     o00 = yates (Num (real_of_int a)) e00;
                     o01 = yates (Num (real_of_int b)) e01;
                     o10 = yates (Num (real_of_int c)) e10;
                     o11 = yates (Num (real_of_int d)) e11;
                     chi2 = pearson_term o00 e00 + pearson_term o01 e01
                            + pearson_term o10 e10 + pearson_term o11 e11;
                     p = chi2_sf chi2
                 in Inr (chi2, p, dof, expected))))"

text \<open>
  On a table with positive row and column sums everything above is finite: the term of
  one cell after the correction is the real number \<open>corrected_term\<close>, and the statistic
  is the sum \<open>chi2_stat\<close> of the four terms (lemma \<open>chi2_contingency_regular\<close> below).
\<close>

definition corrected_term :: "real \<Rightarrow> real \<Rightarrow> real" where
  "corrected_term obs ex = (obs + min (1 / 2) \<bar>ex - obs\<bar> * sgn (ex - obs) - ex)\<^sup>2 / ex"

definition chi2_stat :: "int table \<Rightarrow> real" where
  "chi2_stat observed =
    (case observed of ((a, b), (c, d)) \<Rightarrow>
       let total = real_of_int (a + b + c + d);
           e = (\<lambda>r k. real_of_int r * real_of_int k / total)
       in corrected_term (real_of_int a) (e (a + b) (a + c))
          + corrected_term (real_of_int b) (e (a + b) (b + d))
          + corrected_term (real_of_int c) (e (c + d) (a + c))
          + corrected_term (real_of_int d) (e (c + d) (b + d)))"

subsection \<open>The tester\<close>

record test_result =
  control_rate :: npfloat
  treatment_rate :: npfloat
  effect_size :: npfloat
  p_value :: npfloat
  significant :: bool
  ci_lower :: npfloat
  ci_upper :: npfloat

text \<open>
  \<^verbatim>\<open>perform_ab_test(control_data, treatment_data, alpha)\<close>. A sample is the list of the
  values of a pandas series of integers (the column \<^verbatim>\<open>ab_test_approved\<close>): its
  \<^verbatim>\<open>sum()\<close> is \<open>sum_list\<close>, zero when the series is empty. The source has no check of
  the sample sizes.
\<close>

definition perform_ab_test :: "int list \<Rightarrow> int list \<Rightarrow> real \<Rightarrow> py_error + test_result" where
  "perform_ab_test control_data treatment_data alpha =
    (let control_approved = sum_list control_data;
         control_total = int (length control_data);
         treatment_approved = sum_list treatment_data;
         treatment_total = int (length treatment_data);
         contingency_table =
           ((control_approved, control_total - control_approved),
            (treatment_approved, treatment_total - treatment_approved))
     in case chi2_contingency contingency_table of
          Inl e \<Rightarrow> Inl e
        | Inr (chi2, p, dof, expected) \<Rightarrow>
            let p_value = p;
                control_rate = Num (real_of_int control_approved) / Num (real_of_int control_total);
                treatment_rate =
                  Num (real_of_int treatment_approved) / Num (real_of_int treatment_total);
                effect_size = treatment_rate - control_rate;
                pooled_se =
                  fsqrt (control_rate * (Num 1 - control_rate) / Num (real_of_int control_total)
                         + treatment_rate * (Num 1 - treatment_rate)
                           / Num (real_of_int treatment_total));
                ci_95 = Num 1.96 * pooled_se
            in Inr \<lparr> control_rate = control_rate,
                     treatment_rate = treatment_rate,
                     effect_size = effect_size,
                     p_value = p_value,
                     significant = flt p_value (Num alpha),
                     ci_lower = effect_size - ci_95,
                     ci_upper = effect_size + ci_95 \<rparr>)"

section \<open>Properties\<close>

lemmas npfloat_ops =
  plus_npfloat_def minus_npfloat_def uminus_npfloat_def times_npfloat_def divide_npfloat_def
  fsub_def fsquare_def

subsection \<open>The statistical tester\<close>

lemma yates_Num:
  "yates (Num ob) (Num ex) = Num (ob + min (1 / 2) \<bar>ex - ob\<bar> * sgn (ex - ob))"
  by (simp add: yates_def npfloat_ops Let_def min_def)

lemma pearson_term_Num:
  "ex \<noteq> 0 \<Longrightarrow> pearson_term (Num ob) (Num ex) = Num ((ob - ex)\<^sup>2 / ex)"
  by (simp add: pearson_term_def npfloat_ops power2_eq_square)

lemma corrected_term_Num:
  "ex \<noteq> 0 \<Longrightarrow> pearson_term (yates (Num ob) (Num ex)) (Num ex) = Num (corrected_term ob ex)"
  by (simp add: yates_Num pearson_term_Num corrected_term_def)

lemma expected_freq_Num:
  assumes "a + b + c + d \<noteq> 0"
  shows "expected_freq ((a, b), (c, d)) =
     ((Num (real_of_int (a + b) * real_of_int (a + c) / real_of_int (a + b + c + d)),
       Num (real_of_int (a + b) * real_of_int (b + d) / real_of_int (a + b + c + d))),
      (Num (real_of_int (c + d) * real_of_int (a + c) / real_of_int (a + b + c + d)),
       Num (real_of_int (c + d) * real_of_int (b + d) / real_of_int (a + b + c + d))))"
  using assms by (simp add: expected_freq_def npfloat_ops Let_def)

lemma chi2_contingency_regular:
  assumes "0 \<le> a" "0 \<le> b" "0 \<le> c" "0 \<le> d"
    and "0 < a + b" "0 < c + d" "0 < a + c" "0 < b + d"
  shows "chi2_contingency ((a, b), (c, d)) =
     Inr (Num (chi2_stat ((a, b), (c, d))), chi2_sf (Num (chi2_stat ((a, b), (c, d)))), 1,
          expected_freq ((a, b), (c, d)))"
proof -
  have n: "a + b + c + d \<noteq> 0" using assms by linarith
  have nz: "real_of_int (a + b) * real_of_int (a + c) / real_of_int (a + b + c + d) \<noteq> 0"
     "real_of_int (a + b) * real_of_int (b + d) / real_of_int (a + b + c + d) \<noteq> 0"
     "real_of_int (c + d) * real_of_int (a + c) / real_of_int (a + b + c + d) \<noteq> 0"
     "real_of_int (c + d) * real_of_int (b + d) / real_of_int (a + b + c + d) \<noteq> 0"
    using assms by auto
  have fz: "first_zero (expected_freq ((a, b), (c, d))) = None"
    unfolding expected_freq_Num [OF n] first_zero_def using nz by simp
  show ?thesis
    using assms(1-4) nz
    by (simp add: chi2_contingency_def fz Let_def)
       (simp add: expected_freq_Num [OF n] corrected_term_Num chi2_stat_def Let_def plus_npfloat_def)
qed

lemma chi2_contingency_empty:
  "chi2_contingency ((0, 0), (0, 0)) = Inr (NaN, NaN, 1, ((NaN, NaN), (NaN, NaN)))"
  by (simp add: chi2_contingency_def expected_freq_def first_zero_def Let_def npfloat_ops
      inf_of_sign_def yates_def pearson_term_def)


lemma rate_radicand_nonneg:
  fixes k n :: int
  assumes "0 \<le> k" "k \<le> n" "0 < n"
  shows "0 \<le> real_of_int k / real_of_int n * (1 - real_of_int k / real_of_int n) / real_of_int n"
proof -
  have "0 \<le> real_of_int k / real_of_int n" using assms by simp
  moreover have "real_of_int k / real_of_int n \<le> 1" using assms by simp
  ultimately show ?thesis using assms by simp
qed

lemma chi2_contingency_Inr_regular:
  assumes "chi2_contingency ((a, b), (c, d)) = Inr res" and "0 < a + b" "0 < c + d"
  shows "0 \<le> a \<and> 0 \<le> b \<and> 0 \<le> c \<and> 0 \<le> d \<and> 0 < a + c \<and> 0 < b + d"
proof -
  have nn: "0 \<le> a" "0 \<le> b" "0 \<le> c" "0 \<le> d"
    using assms(1) by (auto simp: chi2_contingency_def split: if_splits)
  have n: "a + b + c + d \<noteq> 0" using nn assms by linarith
  have fz: "first_zero (expected_freq ((a, b), (c, d))) = None"
    using assms(1) nn by (auto simp: chi2_contingency_def Let_def split: option.splits)
  have "a + c \<noteq> 0 \<and> b + d \<noteq> 0"
    using fz unfolding expected_freq_Num [OF n] first_zero_def
    by (auto split: if_splits)
  with nn show ?thesis by linarith
qed

lemma perform_ab_test_regular:
  assumes "0 \<le> sum_list c" "sum_list c \<le> int (length c)"
    and "0 \<le> sum_list t" "sum_list t \<le> int (length t)"
    and "c \<noteq> []" "t \<noteq> []"
    and "0 < sum_list c + sum_list t" "sum_list c + sum_list t < int (length c) + int (length t)"
  shows "perform_ab_test c t alpha =
    (let p1 = real_of_int (sum_list c) / real (length c);
         p2 = real_of_int (sum_list t) / real (length t);
         se = sqrt (p1 * (1 - p1) / real (length c) + p2 * (1 - p2) / real (length t));
         pv = chi2_sf (Num (chi2_stat ((sum_list c, int (length c) - sum_list c),
                                        (sum_list t, int (length t) - sum_list t))))
     in Inr \<lparr> control_rate = Num p1, treatment_rate = Num p2, effect_size = Num (p2 - p1),
              p_value = pv, significant = flt pv (Num alpha),
              ci_lower = Num (p2 - p1 - 1.96 * se), ci_upper = Num (p2 - p1 + 1.96 * se) \<rparr>)"
proof -
  let ?a = "sum_list c" and ?b = "int (length c) - sum_list c"
  let ?c = "sum_list t" and ?d = "int (length t) - sum_list t"
  have len: "0 < int (length c)" "0 < int (length t)" using assms(5,6) by simp_all
  have reg: "chi2_contingency ((?a, ?b), (?c, ?d)) =
     Inr (Num (chi2_stat ((?a, ?b), (?c, ?d))), chi2_sf (Num (chi2_stat ((?a, ?b), (?c, ?d)))), 1,
          expected_freq ((?a, ?b), (?c, ?d)))"
    using assms len by (intro chi2_contingency_regular) linarith+
  have r1: "0 \<le> real_of_int ?a / real (length c) * (1 - real_of_int ?a / real (length c)) / real (length c)"
    using rate_radicand_nonneg [OF assms(1,2) len(1)] by simp
  have r2: "0 \<le> real_of_int ?c / real (length t) * (1 - real_of_int ?c / real (length t)) / real (length t)"
    using rate_radicand_nonneg [OF assms(3,4) len(2)] by simp
  have rad: "\<not> real_of_int ?a / real (length c) * (1 - real_of_int ?a / real (length c)) / real (length c)
       + real_of_int ?c / real (length t) * (1 - real_of_int ?c / real (length t)) / real (length t) < 0"
    using r1 r2 by linarith
  show ?thesis
    using assms(5,6) rad
    by (simp add: perform_ab_test_def reg Let_def npfloat_ops)
qed

lemma perform_ab_test_Inr_regular:
  assumes "perform_ab_test c t alpha = Inr r" "c \<noteq> []" "t \<noteq> []"
  shows "0 \<le> sum_list c \<and> sum_list c \<le> int (length c)
    \<and> 0 \<le> sum_list t \<and> sum_list t \<le> int (length t)
    \<and> 0 < sum_list c + sum_list t \<and> sum_list c + sum_list t < int (length c) + int (length t)"
proof -
  let ?a = "sum_list c" and ?b = "int (length c) - sum_list c"
  let ?c = "sum_list t" and ?d = "int (length t) - sum_list t"
  from assms(1) obtain res where res: "chi2_contingency ((?a, ?b), (?c, ?d)) = Inr res"
    by (auto simp: perform_ab_test_def Let_def split: sum.splits)
  have "0 < ?a + ?b" "0 < ?c + ?d" using assms(2,3) by simp_all
  from chi2_contingency_Inr_regular [OF res this] show ?thesis by linarith
qed

lemma perform_ab_test_both_empty:
  "perform_ab_test [] [] alpha =
     Inr \<lparr> control_rate = NaN, treatment_rate = NaN, effect_size = NaN, p_value = NaN,
            significant = False, ci_lower = NaN, ci_upper = NaN \<rparr>"
  by (simp add: perform_ab_test_def chi2_contingency_empty Let_def npfloat_ops inf_of_sign_def)

lemma perform_ab_test_one_empty:
  assumes "(c = []) \<noteq> (t = [])"
  shows "perform_ab_test c t alpha \<in>
     {Inl NegativeObserved, Inl (ExpectedZero 0 0), Inl (ExpectedZero 0 1), Inl (ExpectedZero 1 0)}"
proof (cases "c = []")
  case True
  then have t: "t \<noteq> []" using assms by simp
  then have n: "sum_list t + (int (length t) - sum_list t) \<noteq> 0" by simp
  show ?thesis
    using True t
    by (simp add: perform_ab_test_def chi2_contingency_def Let_def expected_freq_def first_zero_def npfloat_ops)
next
  case False
  then have t: "t = []" using assms by simp
  show ?thesis
    using False t
    by (auto simp add: perform_ab_test_def chi2_contingency_def Let_def expected_freq_def first_zero_def npfloat_ops
         split: option.splits)
qed

text \<open>
  Samples of outcomes 0 and 1 in which both outcomes occur, over the two samples taken
  together, give a table with positive row and column sums: the tester returns on them.
\<close>

lemma binary_sum_bounds:
  "set xs \<subseteq> {0, 1 :: int} \<Longrightarrow> 0 \<le> sum_list xs \<and> sum_list xs \<le> int (length xs)"
  by (induction xs) auto

lemma binary_sum_pos:
  "set xs \<subseteq> {0, 1 :: int} \<Longrightarrow> 1 \<in> set xs \<Longrightarrow> 0 < sum_list xs"
proof (induction xs)
  case Nil
  then show ?case by simp
next
  case (Cons x xs)
  then have "set xs \<subseteq> {0, 1 :: int}" by simp
  from binary_sum_bounds [OF this] Cons show ?case by auto
qed

lemma binary_sum_less:
  "set xs \<subseteq> {0, 1 :: int} \<Longrightarrow> 0 \<in> set xs \<Longrightarrow> sum_list xs < int (length xs)"
proof (induction xs)
  case Nil
  then show ?case by simp
next
  case (Cons x xs)
  then have "set xs \<subseteq> {0, 1 :: int}" by simp
  from binary_sum_bounds [OF this] Cons show ?case by auto
qed

lemma both_outcomes_regular:
  assumes "set c \<union> set t = {0, 1 :: int}"
  shows "0 \<le> sum_list c" "sum_list c \<le> int (length c)"
    "0 \<le> sum_list t" "sum_list t \<le> int (length t)"
    "0 < sum_list c + sum_list t" "sum_list c + sum_list t < int (length c) + int (length t)"
proof -
  have c: "set c \<subseteq> {0, 1 :: int}" and t: "set t \<subseteq> {0, 1 :: int}"
    using assms by auto
  note bc = binary_sum_bounds [OF c] and bt = binary_sum_bounds [OF t]
  show "0 \<le> sum_list c" "sum_list c \<le> int (length c)"
    "0 \<le> sum_list t" "sum_list t \<le> int (length t)"
    using bc bt by simp_all
  have "1 \<in> set c \<or> 1 \<in> set t" using assms by auto
  then show "0 < sum_list c + sum_list t"
    using binary_sum_pos [OF c] binary_sum_pos [OF t] bc bt by auto
  have "0 \<in> set c \<or> 0 \<in> set t" using assms by auto
  then show "sum_list c + sum_list t < int (length c) + int (length t)"
    using binary_sum_less [OF c] binary_sum_less [OF t] bc bt by auto
qed

lemma perform_ab_test_both_outcomes:
  assumes "c \<noteq> []" "t \<noteq> []" "set c \<union> set t = {0, 1}"
  shows "perform_ab_test c t alpha =
    (let p1 = real_of_int (sum_list c) / real (length c);
         p2 = real_of_int (sum_list t) / real (length t);
         se = sqrt (p1 * (1 - p1) / real (length c) + p2 * (1 - p2) / real (length t));
         pv = chi2_sf (Num (chi2_stat ((sum_list c, int (length c) - sum_list c),
                                        (sum_list t, int (length t) - sum_list t))))
     in Inr \<lparr> control_rate = Num p1, treatment_rate = Num p2, effect_size = Num (p2 - p1),
              p_value = pv, significant = flt pv (Num alpha),
              ci_lower = Num (p2 - p1 - 1.96 * se), ci_upper = Num (p2 - p1 + 1.96 * se) \<rparr>)"
  using both_outcomes_regular [OF assms(3)] assms(1,2)
  by (intro perform_ab_test_regular)

text \<open>
  Claim C1 says that a call of the tester with an empty control or treatment sample
  raises a distinct "insufficient sample" error and never returns a numeric result. The
  source has no such check. With both samples empty the table is all zero, the expected
  frequencies are NaN, no exception is raised and the tester returns a record of NaN
  values. With one sample empty the exception is the library's complaint about a zero
  expected frequency, the same as for two nonempty samples with only failures.
\<close>

theorem tester_empty_counterexample:
  "perform_ab_test [] [] 0.05 =
     Inr \<lparr> control_rate = NaN, treatment_rate = NaN, effect_size = NaN, p_value = NaN,
            significant = False, ci_lower = NaN, ci_upper = NaN \<rparr>
   \<and> perform_ab_test [] [0] 0.05 = Inl (ExpectedZero 0 0)
   \<and> perform_ab_test [0] [0] 0.05 = Inl (ExpectedZero 0 0)"
  by (simp add: perform_ab_test_both_empty)
     (simp add: perform_ab_test_def chi2_contingency_def Let_def expected_freq_def first_zero_def npfloat_ops)

text \<open>
  Claim C1, as amended. When exactly one of the two samples is empty, the tester raises
  and returns no result: the exception is the \<^verbatim>\<open>ValueError\<close> of \<^verbatim>\<open>chi2_contingency\<close>
  for a zero expected frequency (or for a negative count, when the values of the other
  sample are not all 0 or 1).
\<close>

theorem tester_one_empty_raises:
  assumes "(c = []) \<noteq> (t = [])"
  shows "perform_ab_test c t alpha \<in>
     {Inl NegativeObserved, Inl (ExpectedZero 0 0), Inl (ExpectedZero 0 1), Inl (ExpectedZero 1 0)}"
  using assms by (rule perform_ab_test_one_empty)

theorem tester_one_empty_raises_witness:
  "perform_ab_test [1, 0, 1] [] 0.05 \<in>
     {Inl NegativeObserved, Inl (ExpectedZero 0 0), Inl (ExpectedZero 0 1), Inl (ExpectedZero 1 0)}
   \<and> perform_ab_test [] [1, 0, 1] 0.05 \<in>
     {Inl NegativeObserved, Inl (ExpectedZero 0 0), Inl (ExpectedZero 0 1), Inl (ExpectedZero 1 0)}"
  using tester_one_empty_raises [of "[1, 0, 1]" "[]" "0.05"]
        tester_one_empty_raises [of "[]" "[1, 0, 1]" "0.05"]
  by simp

text \<open>
  Claim C3 speaks of the confidence bounds returned for every pair of nonempty samples.
  On nonempty samples whose outcomes are all equal nothing is returned: the table has a
  zero column and \<^verbatim>\<open>chi2_contingency\<close> raises before the bounds are computed.
\<close>

theorem confidence_bounds_counterexample:
  "perform_ab_test [1, 1] [1] 0.05 = Inl (ExpectedZero 0 1)"
  by (simp add: perform_ab_test_def chi2_contingency_def Let_def expected_freq_def first_zero_def
      npfloat_ops)

text \<open>
  Claim C3, as amended. For every pair of nonempty samples of outcomes 0 and 1 in which
  both outcomes occur (over the two samples taken together), the tester returns, and
  with the success rates \<open>p1 = k1 / n1\<close> (control) and \<open>p2 = k2 / n2\<close> (treatment) its
  confidence bounds are \<open>effect - 1.96 * se\<close> and \<open>effect + 1.96 * se\<close>, where
  \<open>effect = p2 - p1\<close> and \<open>se = sqrt (p1 * (1 - p1) / n1 + p2 * (1 - p2) / n2)\<close>.
\<close>

theorem tester_confidence_bounds:
  assumes "c \<noteq> []" "t \<noteq> []" "set c \<union> set t = {0, 1}"
  shows "\<exists>r. perform_ab_test c t alpha = Inr r
     \<and> ci_lower r =
           Num (real_of_int (sum_list t) / real (length t) - real_of_int (sum_list c) / real (length c)
                - 1.96 * sqrt (real_of_int (sum_list c) / real (length c)
                                 * (1 - real_of_int (sum_list c) / real (length c)) / real (length c)
                               + real_of_int (sum_list t) / real (length t)
                                 * (1 - real_of_int (sum_list t) / real (length t)) / real (length t)))
     \<and> ci_upper r =
           Num (real_of_int (sum_list t) / real (length t) - real_of_int (sum_list c) / real (length c)
                + 1.96 * sqrt (real_of_int (sum_list c) / real (length c)
                                 * (1 - real_of_int (sum_list c) / real (length c)) / real (length c)
                               + real_of_int (sum_list t) / real (length t)
                                 * (1 - real_of_int (sum_list t) / real (length t)) / real (length t)))"
  by (simp add: perform_ab_test_both_outcomes [OF assms] Let_def)

theorem tester_confidence_bounds_witness:
  "\<exists>r. perform_ab_test [1, 0] [1, 1, 1, 0] 0.05 = Inr r
     \<and> ci_lower r = Num (1 / 4 - 1.96 * sqrt (11 / 64))
     \<and> ci_upper r = Num (1 / 4 + 1.96 * sqrt (11 / 64))"
proof -
  have s: "set [1, 0] \<union> set [1, 1, 1, 0] = {0, 1 :: int}" by auto
  from tester_confidence_bounds [OF _ _ s, of "0.05"] show ?thesis
    by simp
qed

lemma chi2_sf_Num: "\<exists>pv. chi2_sf (Num x) = Num pv"
  by simp

text \<open>
  Claim C4 speaks of the effect size and the flag returned for every pair of nonempty
  samples. Two nonempty samples of failures only give a table with a zero column, and
  the tester raises before any rate is computed.
\<close>

theorem effect_and_flag_counterexample:
  "perform_ab_test [0] [0, 0] 0.05 = Inl (ExpectedZero 0 0)"
  by (simp add: perform_ab_test_def chi2_contingency_def Let_def expected_freq_def first_zero_def
      npfloat_ops)

text \<open>
  Claim C4, as amended. For every pair of nonempty samples of outcomes 0 and 1 in which
  both outcomes occur, the tester returns; the effect size it returns is the treatment
  success rate minus the control success rate, the p-value it returns is the one of the
  chi-square test of the contingency table, and the significance flag is true exactly
  when that p-value is strictly below \<open>alpha\<close>.
\<close>

theorem tester_effect_and_flag:
  assumes "c \<noteq> []" "t \<noteq> []" "set c \<union> set t = {0, 1}"
  shows "\<exists>r chi2 dof expected pv.
       perform_ab_test c t alpha = Inr r
     \<and> effect_size r =
           Num (real_of_int (sum_list t) / real (length t) - real_of_int (sum_list c) / real (length c))
     \<and> chi2_contingency ((sum_list c, int (length c) - sum_list c),
                          (sum_list t, int (length t) - sum_list t))
           = Inr (chi2, Num pv, dof, expected)
     \<and> p_value r = Num pv \<and> (significant r \<longleftrightarrow> pv < alpha)"
proof -
  let ?tab = "((sum_list c, int (length c) - sum_list c), (sum_list t, int (length t) - sum_list t))"
  note reg = both_outcomes_regular [OF assms(3)]
  have len: "0 < int (length c)" "0 < int (length t)" using assms(1,2) by simp_all
  obtain pv where pv: "chi2_sf (Num (chi2_stat ?tab)) = Num pv"
    using chi2_sf_Num by blast
  let ?p1 = "real_of_int (sum_list c) / real (length c)"
  let ?p2 = "real_of_int (sum_list t) / real (length t)"
  let ?se = "sqrt (?p1 * (1 - ?p1) / real (length c) + ?p2 * (1 - ?p2) / real (length t))"
  let ?r = "\<lparr> control_rate = Num ?p1, treatment_rate = Num ?p2, effect_size = Num (?p2 - ?p1),
              p_value = Num pv, significant = (pv < alpha),
              ci_lower = Num (?p2 - ?p1 - 1.96 * ?se), ci_upper = Num (?p2 - ?p1 + 1.96 * ?se) \<rparr>"
  have 1: "perform_ab_test c t alpha = Inr ?r"
    using pv by (simp add: perform_ab_test_both_outcomes [OF assms] Let_def)
  have 2: "chi2_contingency ?tab = Inr (Num (chi2_stat ?tab), Num pv, 1, expected_freq ?tab)"
    using reg len unfolding pv [symmetric] by (intro chi2_contingency_regular) linarith+
  have 3: "effect_size ?r = Num (?p2 - ?p1)" "p_value ?r = Num pv" "significant ?r \<longleftrightarrow> pv < alpha"
    by simp_all
  from 1 2 3 show ?thesis
    by blast
qed

theorem tester_effect_and_flag_witness:
  "\<exists>r. perform_ab_test [1, 0] [1, 1, 1, 0] 0.05 = Inr r
     \<and> effect_size r = Num (1 / 4)
     \<and> (\<exists>pv. p_value r = Num pv \<and> (significant r \<longleftrightarrow> pv < 0.05))"
proof -
  have s: "set [1, 0] \<union> set [1, 1, 1, 0] = {0, 1 :: int}" by auto
  from tester_effect_and_flag [OF _ _ s, of "0.05"] show ?thesis
    by auto
qed

text \<open>
  Claim C6 speaks of the effect size and p-value returned before and after the swap for
  every pair of nonempty samples. On nonempty samples of successes only the tester raises
  in both orders, and there is nothing to compare.
\<close>

theorem tester_swap_counterexample:
  "perform_ab_test [1, 1, 1] [1] 0.05 = Inl (ExpectedZero 0 1)
   \<and> perform_ab_test [1] [1, 1, 1] 0.05 = Inl (ExpectedZero 0 1)"
  by (simp add: perform_ab_test_def chi2_contingency_def Let_def expected_freq_def first_zero_def
      npfloat_ops)

text \<open>
  Claim C6, as amended. For every pair of nonempty samples of outcomes 0 and 1 in which
  both outcomes occur, the tester returns in both orders of its arguments, and the swap
  negates the returned effect size and exchanges the two returned rates. Nothing is
  stated of the p-value: after the swap the library adds the same four terms of the
  statistic in the other row order, and a sum of floats depends on its order.
\<close>

theorem tester_swap:
  assumes "c \<noteq> []" "t \<noteq> []" "set c \<union> set t = {0, 1}"
  shows "\<exists>r r'. perform_ab_test c t alpha = Inr r \<and> perform_ab_test t c alpha = Inr r'
           \<and> effect_size r' = - effect_size r
           \<and> control_rate r' = treatment_rate r \<and> treatment_rate r' = control_rate r"
proof -
  have s: "set t \<union> set c = {0, 1}" using assms(3) by (simp add: Un_commute)
  show ?thesis
    by (simp add: perform_ab_test_both_outcomes [OF assms]
          perform_ab_test_both_outcomes [OF assms(2,1) s] Let_def uminus_npfloat_def)
qed

theorem tester_swap_witness:
  "\<exists>r r'. perform_ab_test [1, 0] [1, 1, 1, 0] 0.05 = Inr r
     \<and> perform_ab_test [1, 1, 1, 0] [1, 0] 0.05 = Inr r'
     \<and> effect_size r = Num (1 / 4) \<and> effect_size r' = Num (- (1 / 4))"
proof -
  have s: "set [1, 0] \<union> set [1, 1, 1, 0] = {0, 1 :: int}" by auto
  have e: "perform_ab_test [1, 0] [1, 1, 1, 0] 0.05 = Inr r \<Longrightarrow> effect_size r = Num (1 / 4)" for r
    using perform_ab_test_both_outcomes [OF _ _ s, of "0.05"] by (auto simp: Let_def)
  from tester_swap [OF _ _ s, of "0.05"] e show ?thesis
    by (auto simp: uminus_npfloat_def)
qed

text \<open>
  Claim C8 says that the tester returns effect size 0 for any two nonempty samples with
  identical success rates. Two samples of successes only have identical rates, and the
  tester raises on them: the column of failures of the table is zero.
\<close>

theorem identical_rates_counterexample:
  "perform_ab_test [1] [1] 0.05 = Inl (ExpectedZero 0 1)"
  by (simp add: perform_ab_test_def chi2_contingency_def Let_def expected_freq_def first_zero_def npfloat_ops)

lemma corrected_term_same: "corrected_term x x = 0"
  by (simp add: corrected_term_def)

lemma chi2_stat_identical_rates:
  fixes k1 n1 k2 n2 :: int
  assumes "0 < n1" "0 < n2" "real_of_int k1 / real_of_int n1 = real_of_int k2 / real_of_int n2"
  shows "chi2_stat ((k1, n1 - k1), (k2, n2 - k2)) = 0"
proof -
  have x: "real_of_int k1 * real_of_int n2 = real_of_int k2 * real_of_int n1"
    using assms by (simp add: frac_eq_eq)
  have n: "real_of_int n1 + real_of_int n2 \<noteq> 0" using assms by linarith
  have e00: "real_of_int n1 * (real_of_int k1 + real_of_int k2) / (real_of_int n1 + real_of_int n2) = real_of_int k1"
    using n x by (simp add: field_simps)
  have e10: "real_of_int n2 * (real_of_int k1 + real_of_int k2) / (real_of_int n1 + real_of_int n2) = real_of_int k2"
    using n x by (simp add: field_simps)
  have e01: "real_of_int n1 * (real_of_int n1 - real_of_int k1 + (real_of_int n2 - real_of_int k2)) / (real_of_int n1 + real_of_int n2) = real_of_int n1 - real_of_int k1"
    using n x by (simp add: field_simps)
  have e11: "real_of_int n2 * (real_of_int n1 - real_of_int k1 + (real_of_int n2 - real_of_int k2)) / (real_of_int n1 + real_of_int n2) = real_of_int n2 - real_of_int k2"
    using n x by (simp add: field_simps)
  show ?thesis
    by (simp add: chi2_stat_def Let_def e00 e01 e10 e11 corrected_term_same)
qed

text \<open>
  Claim C8, as amended. For any two nonempty samples with identical success rates
  strictly between 0 and 1 the tester returns effect size 0; and for a control sample of
  size 10 with 8 successes and a treatment sample of size 10 with 8 successes it returns
  effect size 0 and does not flag the result as significant at \<open>alpha = 0.05\<close>.
\<close>

theorem identical_rates:
  "(c \<noteq> [] \<and> t \<noteq> []
      \<and> real_of_int (sum_list c) / real (length c) = real_of_int (sum_list t) / real (length t)
      \<and> 0 < sum_list c \<and> sum_list c < int (length c)
      \<longrightarrow> (\<exists>r. perform_ab_test c t alpha = Inr r \<and> effect_size r = Num 0))
   \<and> (length c = 10 \<and> sum_list c = 8 \<and> length t = 10 \<and> sum_list t = 8
      \<longrightarrow> (\<exists>r. perform_ab_test c t 0.05 = Inr r \<and> effect_size r = Num 0 \<and> \<not> significant r))"
proof (intro conjI impI)
  assume a: "c \<noteq> [] \<and> t \<noteq> []
      \<and> real_of_int (sum_list c) / real (length c) = real_of_int (sum_list t) / real (length t)
      \<and> 0 < sum_list c \<and> sum_list c < int (length c)"
  then have lt: "0 < real (length t)" and lc: "0 < real (length c)" by simp_all
  from a have eq: "real_of_int (sum_list t) / real (length t) = real_of_int (sum_list c) / real (length c)"
    by simp
  from a have sc: "0 < sum_list c" "sum_list c < int (length c)"
    by simp_all
  have p: "0 < real_of_int (sum_list c) / real (length c)" "real_of_int (sum_list c) / real (length c) < 1"
    using sc lc by simp_all
  have "0 < real_of_int (sum_list t) / real (length t)" "real_of_int (sum_list t) / real (length t) < 1"
    unfolding eq by (rule p)+
  with lt have "0 < real_of_int (sum_list t)" "real_of_int (sum_list t) < real (length t)"
    by (simp_all add: zero_less_divide_iff)
  then have t: "0 < sum_list t" "sum_list t < int (length t)" by linarith+
  show "\<exists>r. perform_ab_test c t alpha = Inr r \<and> effect_size r = Num 0"
    using perform_ab_test_regular [of c t alpha] a t by (simp add: Let_def)
next
  assume a: "length c = 10 \<and> sum_list c = 8 \<and> length t = 10 \<and> sum_list t = 8"
  then have ne: "c \<noteq> []" "t \<noteq> []" by auto
  have "chi2_stat ((8, 10 - 8), (8, 10 - 8)) = 0"
    by (rule chi2_stat_identical_rates) simp_all
  then have z: "chi2_stat ((8, 2), (8, 2)) = 0" by simp
  show "\<exists>r. perform_ab_test c t 0.05 = Inr r \<and> effect_size r = Num 0 \<and> \<not> significant r"
    using perform_ab_test_regular [of c t "0.05"] a ne by (simp add: Let_def z)
qed

theorem identical_rates_witness:
  "(\<exists>r. perform_ab_test [1, 0] [1, 1, 0, 0] 0.05 = Inr r \<and> effect_size r = Num 0)
   \<and> (\<exists>r. perform_ab_test (replicate 8 1 @ replicate 2 0) (replicate 2 0 @ replicate 8 1) 0.05
            = Inr r
          \<and> effect_size r = Num 0 \<and> \<not> significant r)"
  using identical_rates [of "[1, 0]" "[1, 1, 0, 0]" "0.05"]
    identical_rates [of "replicate 8 1 @ replicate 2 0" "replicate 2 0 @ replicate 8 1"]
  by (simp add: sum_list_replicate)

subsection \<open>The sample-size estimator\<close>

lemma over_zero_raises:
  "py_int (fceil (Num 2 * fsquare (x / Num 0))) \<in> {Inl IntOfInfinity, Inl IntOfNaN}"
  by (cases x) (auto simp: npfloat_ops inf_of_sign_def)

text \<open>
  Claim C2, as amended. For every call with \<open>p1 = p2\<close> the estimator raises instead of
  returning a result: the difference \<open>p2 - p1\<close> is zero, the quotient is infinite or
  NaN, and its conversion to an integer raises \<^verbatim>\<open>OverflowError\<close> or \<^verbatim>\<open>ValueError\<close>.
\<close>

theorem sample_size_equal_rates:
  "calculate_sample_size alpha pwr p p \<in> {Inl IntOfInfinity, Inl IntOfNaN}"
proof -
  have "Num p - Num p = Num 0" by (simp add: npfloat_ops)
  then show ?thesis
    using over_zero_raises by (simp add: calculate_sample_size_def Let_def)
qed

text \<open>
  Claim C2 says that the estimator rejects every call with a probability outside
  \<open>[0, 1]\<close>. The source has no check of its arguments: with \<open>p1 = - 0.1\<close> and
  \<open>p2 = 0.2\<close> both square roots have nonnegative arguments and a number is returned.
\<close>

theorem sample_size_unchecked_counterexample:
  "\<not> isl (calculate_sample_size 0.05 0.8 (- 0.1) 0.2)"
  by (simp add: calculate_sample_size_def Let_def npfloat_ops)

subsection \<open>Business impact\<close>

text \<open>
  Claim C10. In \<open>calculate_business_impact\<close>, when the treatment rate is at least the
  control rate the rejected projects are 0 and the net impact is the additional funding;
  when the treatment rate is below the control rate the net impact is exactly twice the
  additional funding (which is negative then): the loss is counted a second time as the
  cost of the rejected projects.
\<close>

theorem business_impact_net:
  "(c \<le> t \<longrightarrow>
      projects_rejected (calculate_business_impact c t n cost) = 0
      \<and> net_impact (calculate_business_impact c t n cost)
        = additional_funding (calculate_business_impact c t n cost))
   \<and> (t < c \<longrightarrow>
      net_impact (calculate_business_impact c t n cost)
        = 2 * additional_funding (calculate_business_impact c t n cost))"
  by (simp add: calculate_business_impact_def Let_def algebra_simps)

theorem business_impact_net_witness: "projects_rejected (calculate_business_impact 0.85 0.9 100000 298.12) = 0
   \<and> net_impact (calculate_business_impact 0.85 0.9 100000 298.12) = 1490600
   \<and> additional_funding (calculate_business_impact 0.85 0.8 100000 298.12) = - 1490600
   \<and> net_impact (calculate_business_impact 0.85 0.8 100000 298.12) = - 2981200"
  using business_impact_net [of "0.85" "0.9" 100000 "298.12"] business_impact_net [of "0.85" "0.8" 100000 "298.12"]
  by (simp add: calculate_business_impact_def Let_def)

subsection \<open>Outcome simulation\<close>

lemma choice_zero_one: "fst (random_choice [(0::int, 0.3), (1, 0.7)] 1 g) \<in> {0, 1}"
  by (simp add: random_choice_def)

lemma simulate_never_promotes:
  assumes "simulate_text_length_effect r g = (Inr v, g')"
  shows "v \<le> project_is_approved r \<and> (project_is_approved r = 0 \<longrightarrow> v = 0)"
  using assms choice_zero_one [of g]
  by (auto simp: simulate_text_length_effect_def Let_def split: option.splits if_splits prod.splits)

lemma simulate_known_group:
  assumes "test_group r \<in> {''A'', ''B'', ''C'', ''D''}"
  shows "\<exists>v g'. simulate_text_length_effect r g = (Inr v, g')"
  using assms
  by (auto simp: simulate_text_length_effect_def test_groups_def Let_def split: option.splits if_splits prod.splits)

lemma assign_groups_props:
  "assign_groups df g = (df', g') \<Longrightarrow>
     length df' = length df
     \<and> map project_is_approved df' = map project_is_approved df
     \<and> (\<forall>r \<in> set df'. test_group r \<in> {''A'', ''B'', ''C'', ''D''})"
proof (induction df arbitrary: g df' g')
  case Nil
  then show ?case by simp
next
  case (Cons r rs)
  obtain grp g1 where c: "random_choice [(''A'', 0.25), (''B'', 0.25), (''C'', 0.25), (''D'', 0.25)] ''D'' g = (grp, g1)"
    by (cases "random_choice [(''A'', 0.25::real), (''B'', 0.25), (''C'', 0.25), (''D'', 0.25)] ''D'' g")
  obtain rs' g2 where a: "assign_groups rs g1 = (rs', g2)" by (cases "assign_groups rs g1")
  have grp: "grp \<in> {''A'', ''B'', ''C'', ''D''}"
    using c by (auto simp: random_choice_def split: if_splits)
  from Cons.prems c a have eq: "df' = r\<lparr>test_group := grp\<rparr> # rs'" by simp
  from Cons.IH [OF a] grp show ?case unfolding eq by simp
qed

lemma apply_simulation_props:
  "\<forall>r \<in> set df. test_group r \<in> {''A'', ''B'', ''C'', ''D''} \<Longrightarrow>
   \<exists>out. apply_simulation df g = Inr out \<and> map fst out = df
     \<and> (\<forall>p \<in> set out. snd p \<le> project_is_approved (fst p)
            \<and> (project_is_approved (fst p) = 0 \<longrightarrow> snd p = 0))"
proof (induction df arbitrary: g)
  case Nil
  then show ?case by simp
next
  case (Cons r rs)
  from Cons.prems have "test_group r \<in> {''A'', ''B'', ''C'', ''D''}" by simp
  from simulate_known_group [OF this] obtain v g' where s: "simulate_text_length_effect r g = (Inr v, g')"
    by blast
  from Cons.prems have "\<forall>r \<in> set rs. test_group r \<in> {''A'', ''B'', ''C'', ''D''}" by simp
  from Cons.IH [OF this, of g'] obtain out where o: "apply_simulation rs g' = Inr out" "map fst out = rs"
     "\<forall>p \<in> set out. snd p \<le> project_is_approved (fst p) \<and> (project_is_approved (fst p) = 0 \<longrightarrow> snd p = 0)"
    by blast
  from s o simulate_never_promotes [OF s] show ?case by simp
qed

text \<open>
  Claim C5. For every record of the data set, whatever the random draws, the simulated
  outcome \<^verbatim>\<open>ab_test_approved\<close> is at most the original label
  \<^verbatim>\<open>project_is_approved\<close>, and a record whose label is 0 keeps the outcome 0: the
  simulation runs to its end on every data set and pairs each row, in order, with such
  an outcome.
\<close>

theorem simulation_only_demotes:
  "\<exists>out. implement_ab_test df g = Inr out \<and> length out = length df
     \<and> (\<forall>i < length df.
           project_is_approved (fst (out ! i)) = project_is_approved (df ! i)
           \<and> snd (out ! i) \<le> project_is_approved (df ! i)
           \<and> (project_is_approved (df ! i) = 0 \<longrightarrow> snd (out ! i) = 0))"
proof -
  obtain df' g' where a: "assign_groups df g = (df', g')" by (cases "assign_groups df g")
  from assign_groups_props [OF a] have len: "length df' = length df"
    and lab: "map project_is_approved df' = map project_is_approved df"
    and grp: "\<forall>r \<in> set df'. test_group r \<in> {''A'', ''B'', ''C'', ''D''}" by auto
  from apply_simulation_props [OF grp, of g'] obtain out where
    o: "apply_simulation df' g' = Inr out" "map fst out = df'"
     "\<forall>p \<in> set out. snd p \<le> project_is_approved (fst p) \<and> (project_is_approved (fst p) = 0 \<longrightarrow> snd p = 0)"
    by blast
  have lo: "length out = length df" using o(2) len by (metis length_map)
  have "project_is_approved (fst (out ! i)) = project_is_approved (df ! i)
           \<and> snd (out ! i) \<le> project_is_approved (df ! i)
           \<and> (project_is_approved (df ! i) = 0 \<longrightarrow> snd (out ! i) = 0)" if "i < length df" for i
  proof -
    have i: "i < length out" using that lo by simp
    have "fst (out ! i) = df' ! i" using o(2) i by (metis nth_map)
    moreover have "project_is_approved (df' ! i) = project_is_approved (df ! i)"
      using lab that len by (metis nth_map)
    moreover have "out ! i \<in> set out" using i by simp
    ultimately show ?thesis using o(3) by metis
  qed
  with a o(1) lo show ?thesis by (simp add: implement_ab_test_def)
qed

theorem simulation_only_demotes_witness:
  "\<exists>out. implement_ab_test
       [\<lparr> project_is_approved = 1, essay_length = Some 500, test_group = '''' \<rparr>,
        \<lparr> project_is_approved = 0, essay_length = Some 900, test_group = '''' \<rparr>]
       (sconst 0.26)
     = Inr out \<and> length out = 2 \<and> snd (out ! 0) \<le> 1 \<and> snd (out ! 1) = 0"
proof -
  let ?df = "[\<lparr> project_is_approved = 1, essay_length = Some 500, test_group = '''' \<rparr>,
              \<lparr> project_is_approved = 0, essay_length = Some 900, test_group = '''' \<rparr>]"
  from simulation_only_demotes [of ?df "sconst 0.26"] obtain out where
    o: "implement_ab_test ?df (sconst 0.26) = Inr out" "length out = length ?df"
    and all: "\<And>i. i < length ?df \<Longrightarrow>
           snd (out ! i) \<le> project_is_approved (?df ! i)
           \<and> (project_is_approved (?df ! i) = 0 \<longrightarrow> snd (out ! i) = 0)"
    by blast
  from all [of 0] have "snd (out ! 0) \<le> 1"
    by simp
  moreover from all [of 1] have "snd (out ! 1) = 0"
    by simp
  ultimately show ?thesis
    using o by simp
qed

end
